theory Spec2Isabelle
  imports Complex_Main "HOL-Library.Word" "HOL-Library.Log_Nat"
begin

section \<open>NSFW detection service: \<^verbatim>\<open>src/server/services/nsfw-detection.ts\<close>\<close>

text \<open>
  A shallow embedding of the service. Module-level variables (\<open>modelSession\<close>,
  \<open>modelLoadPromise\<close>, \<open>auditLogs\<close>) form an explicit state record that every operation
  takes and returns. The libraries the module calls (\<open>sharp\<close>, \<open>fs\<close>, the clock) are
  parameters: a record of functions for \<open>sharp\<close> and for the file system, and the clock
  reading of \<open>new Date()\<close> as an argument. A thrown value is the left injection of a sum.
  Writes to the console are not modelled.
\<close>

subsection \<open>JavaScript values\<close>

text \<open>
  A JavaScript \<open>number\<close>: a finite double, carried as the rational it denotes, or one
  of the three special values. The sign of zero is not modelled. The module compares
  numbers and tests their truthiness; the arithmetic of \<open>getNSFWStats\<close> rounds as
  IEEE 754 double precision does (\<open>round_double\<close> below). Only the store into the
  \<open>Float32Array\<close> of the tensor normalisation is left unrounded.
\<close>

datatype number = Num rat | NaN | PosInfinity | NegInfinity

text \<open>Truthiness of a number: \<open>0\<close> and \<open>NaN\<close> are falsy.\<close>

fun truthy :: "number \<Rightarrow> bool" where
  "truthy (Num r) = (r \<noteq> 0)"
| "truthy NaN = False"
| "truthy PosInfinity = True"
| "truthy NegInfinity = True"

text \<open>The comparison \<open>x > c\<close> of a number with a finite constant.\<close>

fun greater :: "number \<Rightarrow> rat \<Rightarrow> bool" where
  "greater (Num r) c = (r > c)"
| "greater NaN c = False"
| "greater PosInfinity c = True"
| "greater NegInfinity c = False"






text \<open>
  A thrown value. Everything the module throws or catches is an instance of \<open>Error\<close>
  with the default name; the argument is its message.
\<close>

datatype js_error = Error string

text \<open>\<open>String(error)\<close>, that is \<open>Error.prototype.toString\<close> with the name \<open>Error\<close>.\<close>

fun String :: "js_error \<Rightarrow> string" where
  "String (Error msg) = (if msg = [] then ''Error'' else ''Error: '' @ msg)"

type_synonym Buffer = "8 word list"

type_synonym Date = int

subsection \<open>Configuration\<close>

definition NSFW_CONFIDENCE_THRESHOLD :: rat where
  "NSFW_CONFIDENCE_THRESHOLD = 7 / 10"

definition MAX_IMAGE_SIZE_MB :: rat where
  "MAX_IMAGE_SIZE_MB = 50"

definition MAX_IMAGE_DIMENSION :: nat where
  "MAX_IMAGE_DIMENSION = 4096"

subsection \<open>Data model\<close>

datatype category = Safe | Nsfw | Uncertain

record NSFWDetectionResult =
  isNSFW :: bool
  confidence :: rat
  category :: category
  error :: "string option"

text \<open>
  \<open>AuditFields\<close> is \<open>Omit<NSFWAuditLog, 'timestamp'>\<close>, the argument of \<open>logAudit\<close>;
  \<open>NSFWAuditLog\<close> adds the timestamp. \<open>dimensions\<close> is the pair (width, height).
\<close>

record AuditFields =
  userId :: "string option"
  fileName :: string
  isNSFW :: bool
  confidence :: rat
  fileSize :: number
  dimensions :: "(nat \<times> nat) option"
  error :: "string option"

record NSFWAuditLog = AuditFields +
  timestamp :: Date

datatype InferenceSession = InferenceSession string

text \<open>
  \<open>modelLoadPromise\<close> is \<open>None\<close> for \<open>null\<close>, and otherwise the settled outcome of the
  promise stored there: calls are modelled one after the other, so the promise of one call
  has settled when the next call reads it.
\<close>

record state =
  modelSession :: "InferenceSession option"
  modelLoadPromise :: "(js_error + unit) option"
  auditLogs :: "NSFWAuditLog list"

definition initial_state :: state where
  "initial_state = \<lparr>modelSession = None, modelLoadPromise = None, auditLogs = []\<rparr>"

subsection \<open>Audit log\<close>

text \<open>\<open>logAudit\<close>: push the entry, then \<open>splice\<close> the oldest entries off beyond 10000.\<close>

definition logAudit :: "Date \<Rightarrow> AuditFields \<Rightarrow> state \<Rightarrow> state" where
  "logAudit now log' s =
     (let auditEntry =
            \<lparr>userId = userId log', fileName = fileName log',
             isNSFW = AuditFields.isNSFW log', confidence = AuditFields.confidence log',
             fileSize = fileSize log', dimensions = dimensions log',
             error = AuditFields.error log', timestamp = now\<rparr>;
          pushed = auditLogs s @ [auditEntry]
      in s\<lparr>auditLogs :=
             (if length pushed > 10000 then drop (length pushed - 10000) pushed
              else pushed)\<rparr>)"

text \<open>
  \<open>Array.prototype.slice(start)\<close> with one integer argument: a negative start counts
  from the end, and the start is clamped to the array.
\<close>

definition slice :: "int \<Rightarrow> 'a list \<Rightarrow> 'a list" where
  "slice start xs =
     (let len = int (length xs);
          k = (if start < 0 then max (len + start) 0 else min start len)
      in drop (nat k) xs)"

text \<open>
  \<open>getAuditLogs(limit = 100)\<close>: \<open>auditLogs.slice(-limit).reverse()\<close>. The slice is a
  fresh array, so reversing it in place leaves \<open>auditLogs\<close> as it was.
\<close>

definition getAuditLogs :: "int option \<Rightarrow> state \<Rightarrow> NSFWAuditLog list \<times> state" where
  "getAuditLogs limit_arg s =
     (let limit = (case limit_arg of None \<Rightarrow> 100 | Some l \<Rightarrow> l)
      in (rev (slice (- limit) (auditLogs s)), s))"




text \<open>A sequence of \<open>logAudit\<close> calls, each with its clock reading, oldest first.\<close>

fun logAudit_all :: "(Date \<times> AuditFields) list \<Rightarrow> state \<Rightarrow> state" where
  "logAudit_all [] s = s"
| "logAudit_all (c # cs) s = logAudit_all cs (logAudit (fst c) (snd c) s)"

text \<open>The entry that \<open>logAudit\<close> builds from its argument and the clock.\<close>

definition entry_of :: "Date \<times> AuditFields \<Rightarrow> NSFWAuditLog" where
  "entry_of c =
     \<lparr>userId = userId (snd c), fileName = fileName (snd c),
      isNSFW = AuditFields.isNSFW (snd c), confidence = AuditFields.confidence (snd c),
      fileSize = fileSize (snd c), dimensions = dimensions (snd c),
      error = AuditFields.error (snd c), timestamp = fst c\<rparr>"

subsection \<open>Model initialisation\<close>

text \<open>
  The file system as the module sees it: the working directory, \<open>fs.existsSync\<close>, and
  \<open>fs.mkdirSync\<close>, which returns the error it throws, if any. \<open>path.join\<close> is modelled
  as joining with a slash.
\<close>

record filesystem =
  cwd :: string
  existsSync :: "string \<Rightarrow> bool"
  mkdirSync :: "string \<Rightarrow> js_error option"

definition path_join :: "string \<Rightarrow> string \<Rightarrow> string" where
  "path_join a b = a @ ''/'' @ b"

definition MODEL_CACHE_DIR :: "filesystem \<Rightarrow> string" where
  "MODEL_CACHE_DIR fsys = path_join (cwd fsys) ''.model-cache''"

text \<open>
  \<open>downloadModel\<close>. The directory is created outside the \<open>try\<close>, so an error of
  \<open>mkdirSync\<close> leaves the function; the body of the \<open>try\<close> only logs and returns.
\<close>

definition downloadModel :: "filesystem \<Rightarrow> js_error + string" where
  "downloadModel fsys =
     (case (if \<not> existsSync fsys (MODEL_CACHE_DIR fsys)
            then mkdirSync fsys (MODEL_CACHE_DIR fsys) else None) of
        Some e \<Rightarrow> Inl e
      | None \<Rightarrow>
          (let modelPath = path_join (MODEL_CACHE_DIR fsys) ''nsfw.onnx''
           in if existsSync fsys modelPath then Inr modelPath else Inr modelPath))"

text \<open>
  \<open>initializeModel\<close>. The result is the session returned (\<open>modelSession!\<close>, which is
  \<open>null\<close> when no session was stored) or the error thrown. The line that would store a
  session is commented out in the source, and nothing resets \<open>modelLoadPromise\<close>.
\<close>

definition initializeModel ::
  "filesystem \<Rightarrow> state \<Rightarrow> (js_error + InferenceSession option) \<times> state" where
  "initializeModel fsys s =
     (case modelSession s of
        Some session \<Rightarrow> (Inr (Some session), s)
      | None \<Rightarrow>
          (case modelLoadPromise s of
             Some p \<Rightarrow>
               (case p of
                  Inl e \<Rightarrow> (Inl e, s)
                | Inr u \<Rightarrow> (Inr (modelSession s), s))
           | None \<Rightarrow>
               (let p = (case downloadModel fsys of
                           Inl e \<Rightarrow> Inl e
                         | Inr modelPath \<Rightarrow> Inr ());
                    s1 = s\<lparr>modelLoadPromise := Some p\<rparr>
                in case p of
                     Inl e \<Rightarrow> (Inl e, s1)
                   | Inr u \<Rightarrow> (Inr (modelSession s1), s1))))"

subsection \<open>Preprocessing\<close>

text \<open>
  The \<open>sharp\<close> library: reading the metadata of a buffer, the resize to 224 by 224
  (cover, centred) encoded as PNG, and the raw three-channel pixels of a buffer. Each may
  throw, and each is a function of the buffer: reading the same buffer twice gives the
  same answer.
\<close>

record Metadata =
  format :: "string option"
  width :: "nat option"
  height :: "nat option"

record sharp =
  metadata :: "Buffer \<Rightarrow> js_error + Metadata"
  resize_png :: "Buffer \<Rightarrow> js_error + Buffer"
  raw :: "Buffer \<Rightarrow> js_error + Buffer"

text \<open>Truthiness of an optional dimension and of an optional string.\<close>

fun truthy_dim :: "nat option \<Rightarrow> bool" where
  "truthy_dim None = False"
| "truthy_dim (Some n) = (n \<noteq> 0)"

fun truthy_str :: "string option \<Rightarrow> bool" where
  "truthy_str None = False"
| "truthy_str (Some s) = (s \<noteq> [])"

text \<open>
  The normalisation loop over a \<open>Float32Array\<close> of 224 * 224 * 3 zeros: index \<open>i\<close>
  receives \<open>pixels[i] / 127.5 - 1.0\<close> while \<open>i < pixels.length\<close>; a write beyond the
  array is ignored.
\<close>

definition normalize :: "Buffer \<Rightarrow> rat list" where
  "normalize pixels =
     map (\<lambda>i. if i < length pixels then of_nat (unat (pixels ! i)) / (255 / 2) - 1 else 0)
       [0 ..< 224 * 224 * 3]"

text \<open>
  The body of the \<open>try\<close> of \<open>preprocessImage\<close>: \<open>Inl\<close> is a throw, \<open>Inr None\<close> the
  early \<open>return null\<close>.
\<close>

definition preprocessImage_body :: "sharp \<Rightarrow> Buffer \<Rightarrow> js_error + rat list option" where
  "preprocessImage_body sh imageBuffer =
     (case metadata sh imageBuffer of
        Inl e \<Rightarrow> Inl e
      | Inr md \<Rightarrow>
          if \<not> truthy_dim (width md) \<or> \<not> truthy_dim (height md)
          then Inl (Error ''Invalid image dimensions'')
          else if the (width md) > MAX_IMAGE_DIMENSION \<or> the (height md) > MAX_IMAGE_DIMENSION
          then Inr None
          else
            (case resize_png sh imageBuffer of
               Inl e \<Rightarrow> Inl e
             | Inr resizedBuffer \<Rightarrow>
                 (case raw sh resizedBuffer of
                    Inl e \<Rightarrow> Inl e
                  | Inr pixels \<Rightarrow> Inr (Some (normalize pixels)))))"

text \<open>\<open>preprocessImage\<close>: the \<open>catch\<close> turns every throw into \<open>null\<close>.\<close>

definition preprocessImage :: "sharp \<Rightarrow> Buffer \<Rightarrow> rat list option" where
  "preprocessImage sh imageBuffer =
     (case preprocessImage_body sh imageBuffer of
        Inl e \<Rightarrow> None
      | Inr r \<Rightarrow> r)"

subsection \<open>Detection\<close>

text \<open>
  The verdict of lines 238 to 249, as a function of the constant \<open>confidence\<close> that the
  source fixes to the mock value.
\<close>

definition verdict :: "rat \<Rightarrow> NSFWDetectionResult" where
  "verdict c =
     (let isNSFW = c > NSFW_CONFIDENCE_THRESHOLD
      in \<lparr>NSFWDetectionResult.isNSFW = isNSFW,
          confidence = c,
          category =
            (if c > NSFW_CONFIDENCE_THRESHOLD then Nsfw
             else if c > 4 / 10 then Uncertain
             else Safe),
          error = None\<rparr>)"

definition mock_confidence :: rat where
  "mock_confidence = 15 / 100"

text \<open>\<open>fileSize || 0\<close> for an optional number.\<close>

fun or_zero :: "number option \<Rightarrow> number" where
  "or_zero None = Num 0"
| "or_zero (Some n) = (if truthy n then n else Num 0)"

text \<open>\<open>metadata.width && metadata.height ? {width, height} : undefined\<close>.\<close>

definition dimensions_of :: "Metadata \<Rightarrow> (nat \<times> nat) option" where
  "dimensions_of md =
     (if truthy_dim (width md) \<and> truthy_dim (height md)
      then Some (the (width md), the (height md)) else None)"

text \<open>
  The body of the \<open>try\<close> of \<open>detectNSFW\<close>, with the state it leaves: \<open>Inl\<close> is a throw,
  \<open>Inr\<close> a \<open>return\<close>. The call of \<open>initializeModel\<close> and the model run are commented out in
  the source, so the body does not use the file system.
\<close>

definition detectNSFW_body ::
  "sharp \<Rightarrow> Date \<Rightarrow> Buffer \<Rightarrow> string \<Rightarrow> string option \<Rightarrow> number option \<Rightarrow> state
     \<Rightarrow> (js_error + NSFWDetectionResult) \<times> state" where
  "detectNSFW_body sh now imageBuffer fileName' userId' fileSize' s =
     (if (case fileSize' of None \<Rightarrow> False
          | Some n \<Rightarrow> truthy n \<and> greater n (MAX_IMAGE_SIZE_MB * 1024 * 1024))
      then
        (let result = \<lparr>NSFWDetectionResult.isNSFW = True, confidence = 1, category = Nsfw,
                        error = Some ''File size exceeds limit''\<rparr>;
             s1 = logAudit now
                    \<lparr>userId = userId', fileName = fileName', isNSFW = True, confidence = 1,
                     fileSize = or_zero fileSize', dimensions = None,
                     error = Some ''File size exceeds limit''\<rparr> s
         in (Inr result, s1))
      else
        (case metadata sh imageBuffer of
           Inl e \<Rightarrow> (Inl e, s)
         | Inr md \<Rightarrow>
             if \<not> truthy_str (format md)
                \<or> the (format md) \<notin> set [''jpeg'', ''png'', ''webp'', ''gif'']
             then
               (let result = \<lparr>NSFWDetectionResult.isNSFW = True, confidence = 1,
                               category = Nsfw, error = Some ''Invalid image format''\<rparr>;
                    s1 = logAudit now
                           \<lparr>userId = userId', fileName = fileName', isNSFW = True,
                            confidence = 1, fileSize = or_zero fileSize',
                            dimensions = dimensions_of md,
                            error = Some ''Invalid image format''\<rparr> s
                in (Inr result, s1))
             else
               (case preprocessImage sh imageBuffer of
                  None \<Rightarrow> (Inl (Error ''Image preprocessing failed''), s)
                | Some tensorData \<Rightarrow>
                    (let detectionResult = verdict mock_confidence;
                         s1 = logAudit now
                                \<lparr>userId = userId', fileName = fileName',
                                 isNSFW = NSFWDetectionResult.isNSFW detectionResult,
                                 confidence = NSFWDetectionResult.confidence detectionResult,
                                 fileSize = or_zero fileSize',
                                 dimensions = dimensions_of md,
                                 error = None\<rparr> s
                     in (Inr detectionResult, s1)))))"

text \<open>
  \<open>detectNSFW\<close>: the outcome of the promise it returns (\<open>Inl\<close> would be a rejection) and
  the state after the call. The \<open>catch\<close> builds the fail-safe result and logs it.
\<close>

definition detectNSFW ::
  "sharp \<Rightarrow> Date \<Rightarrow> Buffer \<Rightarrow> string \<Rightarrow> string option \<Rightarrow> number option \<Rightarrow> state
     \<Rightarrow> (js_error + NSFWDetectionResult) \<times> state" where
  "detectNSFW sh now imageBuffer fileName' userId' fileSize' s =
     (case detectNSFW_body sh now imageBuffer fileName' userId' fileSize' s of
        (Inr r, s1) \<Rightarrow> (Inr r, s1)
      | (Inl e, s1) \<Rightarrow>
          (let result = \<lparr>NSFWDetectionResult.isNSFW = True, confidence = 1, category = Nsfw,
                          error = Some (String e)\<rparr>;
               s2 = logAudit now
                      \<lparr>userId = userId', fileName = fileName', isNSFW = True, confidence = 1,
                       fileSize = or_zero fileSize', dimensions = None,
                       error = Some (String e)\<rparr> s1
           in (Inr result, s2)))"

subsection \<open>Sample inputs\<close>

definition blocked_fields :: AuditFields where
  "blocked_fields =
     \<lparr>userId = Some ''u1'', fileName = ''a.png'', isNSFW = True, confidence = 1,
      fileSize = Num 0, dimensions = None, error = Some ''Invalid image format''\<rparr>"

definition allowed_fields :: AuditFields where
  "allowed_fields =
     \<lparr>userId = None, fileName = ''b.png'', isNSFW = False, confidence = 15 / 100,
      fileSize = Num 2048, dimensions = Some (10, 20), error = None\<rparr>"



definition sharp_png :: sharp where
  "sharp_png =
     \<lparr>metadata = (\<lambda>b. Inr \<lparr>format = Some ''png'', width = Some 640, height = Some 480\<rparr>),
      resize_png = (\<lambda>b. Inr b),
      raw = (\<lambda>b. Inr b)\<rparr>"

definition sharp_tiff :: sharp where
  "sharp_tiff =
     \<lparr>metadata = (\<lambda>b. Inr \<lparr>format = Some ''tiff'', width = Some 640, height = Some 480\<rparr>),
      resize_png = (\<lambda>b. Inr b),
      raw = (\<lambda>b. Inr b)\<rparr>"

definition sharp_huge :: sharp where
  "sharp_huge =
     \<lparr>metadata = (\<lambda>b. Inr \<lparr>format = Some ''jpeg'', width = Some 5000, height = Some 300\<rparr>),
      resize_png = (\<lambda>b. Inr b),
      raw = (\<lambda>b. Inr b)\<rparr>"

definition sharp_resize_fails :: sharp where
  "sharp_resize_fails =
     \<lparr>metadata = (\<lambda>b. Inr \<lparr>format = Some ''png'', width = Some 640, height = Some 480\<rparr>),
      resize_png = (\<lambda>b. Inl (Error ''Input buffer has corrupt header'')),
      raw = (\<lambda>b. Inr b)\<rparr>"

definition sharp_broken :: sharp where
  "sharp_broken =
     \<lparr>metadata = (\<lambda>b. Inl (Error ''Input buffer contains unsupported image format'')),
      resize_png = (\<lambda>b. Inl (Error ''Input buffer contains unsupported image format'')),
      raw = (\<lambda>b. Inl (Error ''Input buffer contains unsupported image format''))\<rparr>"

definition fs_failing :: filesystem where
  "fs_failing =
     \<lparr>cwd = ''/app'', existsSync = (\<lambda>p. False),
      mkdirSync = (\<lambda>p. Some (Error ''EACCES: permission denied, mkdir''))\<rparr>"

definition fs_healthy :: filesystem where
  "fs_healthy =
     \<lparr>cwd = ''/app'', existsSync = (\<lambda>p. True), mkdirSync = (\<lambda>p. None)\<rparr>"

section \<open>Properties of the audit log\<close>

lemma auditLogs_logAudit:
  "auditLogs (logAudit now l s) =
     drop (Suc (length (auditLogs s)) - 10000) (auditLogs s @ [entry_of (now, l)])"
  by (simp add: logAudit_def entry_of_def Let_def)

lemma length_logAudit_le: "length (auditLogs (logAudit now l s)) \<le> 10000"
  by (simp add: auditLogs_logAudit)

lemma logAudit_other_fields:
  "modelSession (logAudit now l s) = modelSession s"
  "modelLoadPromise (logAudit now l s) = modelLoadPromise s"
  by (simp_all add: logAudit_def Let_def)

lemma auditLogs_logAudit_all:
  "cs \<noteq> [] \<or> length (auditLogs s) \<le> 10000 \<Longrightarrow>
   auditLogs (logAudit_all cs s) =
     drop (length (auditLogs s) + length cs - 10000) (auditLogs s @ map entry_of cs)"
proof (induction cs arbitrary: s)
  case Nil
  then show ?case by simp
next
  case (Cons c cs)
  let ?s1 = "logAudit (fst c) (snd c) s"
  let ?d = "Suc (length (auditLogs s)) - 10000"
  have s1: "auditLogs ?s1 = drop ?d (auditLogs s @ [entry_of c])"
    using auditLogs_logAudit [of "fst c" "snd c" s] by simp
  have le: "length (auditLogs ?s1) \<le> 10000"
    by (rule length_logAudit_le)
  have "auditLogs (logAudit_all cs ?s1) =
          drop (length (auditLogs ?s1) + length cs - 10000) (auditLogs ?s1 @ map entry_of cs)"
    using Cons.IH [of ?s1] le by simp
  also have "auditLogs ?s1 @ map entry_of cs = drop ?d (auditLogs s @ map entry_of (c # cs))"
    by (simp add: s1)
  also have "drop (length (auditLogs ?s1) + length cs - 10000)
               (drop ?d (auditLogs s @ map entry_of (c # cs)))
      = drop (length (auditLogs s) + length (c # cs) - 10000)
          (auditLogs s @ map entry_of (c # cs))"
  proof -
    have len1: "length (auditLogs ?s1) = Suc (length (auditLogs s)) - ?d"
      by (simp add: s1)
    have "length (auditLogs ?s1) + length cs - 10000 + ?d
            = length (auditLogs s) + length (c # cs) - 10000"
      unfolding len1 by simp
    then show ?thesis
      by (simp only: drop_drop)
  qed
  finally show ?case by simp
qed

lemma slice_neg:
  "0 < n \<Longrightarrow> slice (- int n) xs = drop (length xs - n) xs"
  by (simp add: slice_def Let_def nat_diff_distrib' max_def) 

lemma slice_zero: "slice 0 xs = xs"
  by (simp add: slice_def)

lemma getAuditLogs_pos:
  "0 < n \<Longrightarrow>
   fst (getAuditLogs (Some (int n)) s) = rev (drop (length (auditLogs s) - n) (auditLogs s))"
  by (simp add: getAuditLogs_def slice_neg)

lemma getAuditLogs_state: "snd (getAuditLogs limit s) = s"
  by (simp add: getAuditLogs_def Let_def)

lemma getAuditLogs_subset: "set (fst (getAuditLogs limit s)) \<subseteq> set (auditLogs s)"
  by (auto simp: getAuditLogs_def slice_def Let_def dest: in_set_dropD)

lemma auditLogs_after_many:
  assumes "length cs > 10000"
  shows "auditLogs (logAudit_all cs s) = map entry_of (drop (length cs - 10000) cs)"
proof -
  from assms have ne: "cs \<noteq> []" by auto
  have "auditLogs (logAudit_all cs s) =
          drop (length (auditLogs s) + length cs - 10000) (auditLogs s @ map entry_of cs)"
    using auditLogs_logAudit_all [of cs s] ne by simp
  also have "length (auditLogs s) + length cs - 10000
               = length (auditLogs s) + (length cs - 10000)"
    using assms by simp
  finally show ?thesis
    by (simp add: drop_map)
qed

text \<open>
  Claim C7. After any \<open>logAudit\<close> the log holds at most 10000 records, and what it
  holds is the pushed log without its oldest entries. After more than 10000 calls of
  \<open>logAudit\<close>, \<open>getAuditLogs(10000)\<close> returns exactly the 10000 most recent entries,
  most recent first, and no call of \<open>getAuditLogs\<close> returns anything but those.
\<close>

theorem audit_log_bound:
  "length (auditLogs (logAudit now l s)) \<le> 10000
   \<and> auditLogs (logAudit now l s) =
       drop (Suc (length (auditLogs s)) - 10000) (auditLogs s @ [entry_of (now, l)])
   \<and> (length cs > 10000 \<longrightarrow>
        length (fst (getAuditLogs (Some 10000) (logAudit_all cs s))) = 10000
        \<and> fst (getAuditLogs (Some 10000) (logAudit_all cs s)) =
            rev (map entry_of (drop (length cs - 10000) cs))
        \<and> (\<forall>limit. set (fst (getAuditLogs limit (logAudit_all cs s))) \<subseteq>
                     set (map entry_of (drop (length cs - 10000) cs))))"
proof (intro conjI impI allI)
  show "length (auditLogs (logAudit now l s)) \<le> 10000"
    by (rule length_logAudit_le)
  show "auditLogs (logAudit now l s) =
          drop (Suc (length (auditLogs s)) - 10000) (auditLogs s @ [entry_of (now, l)])"
    by (rule auditLogs_logAudit)
next
  assume big: "length cs > 10000"
  let ?recent = "map entry_of (drop (length cs - 10000) cs)"
  have logs: "auditLogs (logAudit_all cs s) = ?recent"
    using big by (rule auditLogs_after_many)
  have len: "length ?recent = 10000"
    using big by simp
  have "fst (getAuditLogs (Some (int 10000)) (logAudit_all cs s)) =
          rev (drop (length ?recent - 10000) ?recent)"
    using getAuditLogs_pos [of 10000 "logAudit_all cs s"] by (simp only: logs)
  then show eq: "fst (getAuditLogs (Some 10000) (logAudit_all cs s)) = rev ?recent"
    by (simp only: len) simp
  then show "length (fst (getAuditLogs (Some 10000) (logAudit_all cs s))) = 10000"
    using len by simp
  fix limit
  show "set (fst (getAuditLogs limit (logAudit_all cs s))) \<subseteq> set ?recent"
    using getAuditLogs_subset [of limit "logAudit_all cs s"] by (simp only: logs)
qed

text \<open>
  One allowed record followed by 10000 blocked ones: the allowed record is evicted.
\<close>

theorem audit_log_bound_witness:
  "length ((0, allowed_fields) # replicate 10000 (1, blocked_fields)) > 10000
   \<and> fst (getAuditLogs (Some 10000)
          (logAudit_all ((0, allowed_fields) # replicate 10000 (1, blocked_fields))
             initial_state))
       = replicate 10000 (entry_of (1, blocked_fields))"
proof -
  let ?cs = "(0::Date, allowed_fields) # replicate 10000 (1::Date, blocked_fields)"
  have h: "length ?cs > 10000" by simp
  have "fst (getAuditLogs (Some 10000) (logAudit_all ?cs initial_state)) =
          rev (map entry_of (drop (length ?cs - 10000) ?cs))"
    using audit_log_bound [of 0 allowed_fields initial_state ?cs] h
    by (elim conjE impE) assumption+
  then show ?thesis by simp
qed

text \<open>
  Claim C8. With limit 0 the argument of \<open>slice\<close> is \<open>-0\<close>, which is \<open>0\<close>, so
  \<open>getAuditLogs(0)\<close> returns every record of the log instead of none: here the one
  record of a log that holds one. For a positive limit the function returns the most
  recent \<open>limit\<close> records, most recent first (\<open>getAuditLogs_pos\<close>), and it never
  changes the state (\<open>getAuditLogs_state\<close>).
\<close>

theorem getAuditLogs_zero_limit:
  "fst (getAuditLogs (Some 0) (logAudit 1 blocked_fields initial_state)) =
     [entry_of (1, blocked_fields)]"
  by (simp add: getAuditLogs_def slice_def auditLogs_logAudit initial_state_def)

section \<open>Properties of the statistics\<close>

subsection \<open>Rounding to a double\<close>











subsection \<open>The statistics\<close>







section \<open>Properties of detection\<close>

lemma String_nonempty: "String e \<noteq> []"
  by (cases e) simp

lemma cap_value: "MAX_IMAGE_SIZE_MB * 1024 * 1024 = 52428800"
  by (simp add: MAX_IMAGE_SIZE_MB_def)

lemma greater_truthy: "greater n c \<Longrightarrow> 0 \<le> c \<Longrightarrow> truthy n"
  by (cases n) auto

text \<open>The first path of \<open>detectNSFW\<close>: the declared size exceeds the cap.\<close>

lemma detectNSFW_oversize:
  assumes "greater n 52428800"
  shows "detectNSFW sh now imageBuffer fileName' userId' (Some n) s =
     (Inr \<lparr>NSFWDetectionResult.isNSFW = True, confidence = 1, category = Nsfw,
           error = Some ''File size exceeds limit''\<rparr>,
      logAudit now
        \<lparr>userId = userId', fileName = fileName', isNSFW = True, confidence = 1,
         fileSize = n, dimensions = None, error = Some ''File size exceeds limit''\<rparr> s)"
proof -
  have "truthy n" using assms greater_truthy [of n 52428800] by simp
  then show ?thesis
    using assms by (simp add: detectNSFW_def detectNSFW_body_def cap_value Let_def)
qed

text \<open>
  The other paths, for a declared size that does not exceed the cap: \<open>sharp\<close> throws on
  the metadata, the format is rejected, preprocessing returns \<open>null\<close>, or the input is
  accepted.
\<close>

lemma detectNSFW_metadata_throws:
  assumes "\<forall>n. fileSize' = Some n \<longrightarrow> \<not> greater n 52428800"
    and "metadata sh imageBuffer = Inl e"
  shows "detectNSFW sh now imageBuffer fileName' userId' fileSize' s =
     (Inr \<lparr>NSFWDetectionResult.isNSFW = True, confidence = 1, category = Nsfw,
           error = Some (String e)\<rparr>,
      logAudit now
        \<lparr>userId = userId', fileName = fileName', isNSFW = True, confidence = 1,
         fileSize = or_zero fileSize', dimensions = None, error = Some (String e)\<rparr> s)"
  using assms
  by (simp add: detectNSFW_def detectNSFW_body_def cap_value Let_def split: option.splits)

lemma detectNSFW_bad_format:
  assumes "\<forall>n. fileSize' = Some n \<longrightarrow> \<not> greater n 52428800"
    and "metadata sh imageBuffer = Inr md"
    and "format md \<notin> {Some ''jpeg'', Some ''png'', Some ''webp'', Some ''gif''}"
  shows "detectNSFW sh now imageBuffer fileName' userId' fileSize' s =
     (Inr \<lparr>NSFWDetectionResult.isNSFW = True, confidence = 1, category = Nsfw,
           error = Some ''Invalid image format''\<rparr>,
      logAudit now
        \<lparr>userId = userId', fileName = fileName', isNSFW = True, confidence = 1,
         fileSize = or_zero fileSize', dimensions = dimensions_of md,
         error = Some ''Invalid image format''\<rparr> s)"
proof -
  have "\<not> truthy_str (format md)
        \<or> the (format md) \<notin> set [''jpeg'', ''png'', ''webp'', ''gif'']"
    using assms(3) by (cases "format md") auto
  then show ?thesis
    using assms(1,2)
    by (simp add: detectNSFW_def detectNSFW_body_def cap_value Let_def split: option.splits)
qed

lemma format_allowed:
  assumes "format md \<in> {Some ''jpeg'', Some ''png'', Some ''webp'', Some ''gif''}"
  shows "\<not> (\<not> truthy_str (format md)
            \<or> the (format md) \<notin> set [''jpeg'', ''png'', ''webp'', ''gif''])"
  using assms by auto

lemma detectNSFW_preprocess_fails:
  assumes "\<forall>n. fileSize' = Some n \<longrightarrow> \<not> greater n 52428800"
    and "metadata sh imageBuffer = Inr md"
    and "format md \<in> {Some ''jpeg'', Some ''png'', Some ''webp'', Some ''gif''}"
    and "preprocessImage sh imageBuffer = None"
  shows "detectNSFW sh now imageBuffer fileName' userId' fileSize' s =
     (Inr \<lparr>NSFWDetectionResult.isNSFW = True, confidence = 1, category = Nsfw,
           error = Some ''Error: Image preprocessing failed''\<rparr>,
      logAudit now
        \<lparr>userId = userId', fileName = fileName', isNSFW = True, confidence = 1,
         fileSize = or_zero fileSize', dimensions = None,
         error = Some ''Error: Image preprocessing failed''\<rparr> s)"
  using assms(1,2,4) format_allowed [OF assms(3)]
  by (simp add: detectNSFW_def detectNSFW_body_def cap_value Let_def split: option.splits)

lemma verdict_mock:
  "verdict mock_confidence =
     \<lparr>NSFWDetectionResult.isNSFW = False, confidence = 15 / 100, category = Safe,
      error = None\<rparr>"
  by (simp add: verdict_def mock_confidence_def NSFW_CONFIDENCE_THRESHOLD_def)

lemma detectNSFW_accepted:
  assumes "\<forall>n. fileSize' = Some n \<longrightarrow> \<not> greater n 52428800"
    and "metadata sh imageBuffer = Inr md"
    and "format md \<in> {Some ''jpeg'', Some ''png'', Some ''webp'', Some ''gif''}"
    and "preprocessImage sh imageBuffer = Some tensorData"
  shows "detectNSFW sh now imageBuffer fileName' userId' fileSize' s =
     (Inr \<lparr>NSFWDetectionResult.isNSFW = False, confidence = 15 / 100, category = Safe,
           error = None\<rparr>,
      logAudit now
        \<lparr>userId = userId', fileName = fileName', isNSFW = False, confidence = 15 / 100,
         fileSize = or_zero fileSize', dimensions = dimensions_of md, error = None\<rparr> s)"
  using assms(1,2,4) format_allowed [OF assms(3)]
  by (simp add: detectNSFW_def detectNSFW_body_def cap_value Let_def verdict_mock
      split: option.splits)

text \<open>Every input takes exactly one of the five paths.\<close>

lemma input_cases:
  obtains (oversize) n where "fileSize' = Some n" "greater n 52428800"
  | (throws) e where "\<forall>n. fileSize' = Some n \<longrightarrow> \<not> greater n 52428800"
      "metadata sh imageBuffer = Inl e"
  | (bad_format) md where "\<forall>n. fileSize' = Some n \<longrightarrow> \<not> greater n 52428800"
      "metadata sh imageBuffer = Inr md"
      "format md \<notin> {Some ''jpeg'', Some ''png'', Some ''webp'', Some ''gif''}"
  | (no_tensor) md where "\<forall>n. fileSize' = Some n \<longrightarrow> \<not> greater n 52428800"
      "metadata sh imageBuffer = Inr md"
      "format md \<in> {Some ''jpeg'', Some ''png'', Some ''webp'', Some ''gif''}"
      "preprocessImage sh imageBuffer = None"
  | (accepted) md tensorData where "\<forall>n. fileSize' = Some n \<longrightarrow> \<not> greater n 52428800"
      "metadata sh imageBuffer = Inr md"
      "format md \<in> {Some ''jpeg'', Some ''png'', Some ''webp'', Some ''gif''}"
      "preprocessImage sh imageBuffer = Some tensorData"
proof (cases "\<exists>n. fileSize' = Some n \<and> greater n 52428800")
  case True
  then show ?thesis using oversize by blast
next
  case small: False
  show ?thesis
  proof (cases "metadata sh imageBuffer")
    case (Inl e)
    then show ?thesis using small throws by blast
  next
    case (Inr md)
    show ?thesis
    proof (cases "format md \<in> {Some ''jpeg'', Some ''png'', Some ''webp'', Some ''gif''}")
      case False
      then show ?thesis using small Inr bad_format by blast
    next
      case True
      then show ?thesis
        using small Inr no_tensor accepted by (cases "preprocessImage sh imageBuffer") blast+
    qed
  qed
qed

lemma detectNSFW_shape:
  "\<exists>r l. detectNSFW sh now imageBuffer fileName' userId' fileSize' s = (Inr r, logAudit now l s)
     \<and> userId l = userId' \<and> fileName l = fileName'
     \<and> AuditFields.isNSFW l = NSFWDetectionResult.isNSFW r
     \<and> AuditFields.confidence l = NSFWDetectionResult.confidence r
     \<and> AuditFields.error l = NSFWDetectionResult.error r"
proof (cases rule: input_cases [where fileSize' = fileSize' and sh = sh and imageBuffer = imageBuffer])
  case (oversize n)
  show ?thesis
    unfolding oversize(1) detectNSFW_oversize [OF oversize(2)] by fastforce
next
  case (throws e)
  show ?thesis
    unfolding detectNSFW_metadata_throws [OF throws] by fastforce
next
  case (bad_format md)
  show ?thesis
    unfolding detectNSFW_bad_format [OF bad_format] by fastforce
next
  case (no_tensor md)
  show ?thesis
    unfolding detectNSFW_preprocess_fails [OF no_tensor] by fastforce
next
  case (accepted md tensorData)
  show ?thesis
    unfolding detectNSFW_accepted [OF accepted] by fastforce
qed

lemma detectNSFW_verdicts:
  "fst (detectNSFW sh now imageBuffer fileName' userId' fileSize' s) =
     Inr \<lparr>NSFWDetectionResult.isNSFW = False, confidence = 15 / 100, category = Safe,
          error = None\<rparr>
   \<or> (\<exists>msg. msg \<noteq> [] \<and>
         fst (detectNSFW sh now imageBuffer fileName' userId' fileSize' s) =
           Inr \<lparr>NSFWDetectionResult.isNSFW = True, confidence = 1, category = Nsfw,
                error = Some msg\<rparr>)"
proof (cases rule: input_cases [where fileSize' = fileSize' and sh = sh and imageBuffer = imageBuffer])
  case (oversize n)
  show ?thesis
    unfolding oversize(1) detectNSFW_oversize [OF oversize(2)] by simp
next
  case (throws e)
  show ?thesis
    unfolding detectNSFW_metadata_throws [OF throws] by (simp add: String_nonempty)
next
  case (bad_format md)
  show ?thesis
    unfolding detectNSFW_bad_format [OF bad_format] by simp
next
  case (no_tensor md)
  show ?thesis
    unfolding detectNSFW_preprocess_fails [OF no_tensor] by simp
next
  case (accepted md tensorData)
  show ?thesis
    unfolding detectNSFW_accepted [OF accepted] by simp
qed

lemma detectNSFW_failure_blocks:
  assumes "(\<exists>n. fileSize' = Some n \<and> greater n 52428800)
     \<or> (\<exists>e. metadata sh imageBuffer = Inl e)
     \<or> (\<exists>md. metadata sh imageBuffer = Inr md
            \<and> format md \<notin> {Some ''jpeg'', Some ''png'', Some ''webp'', Some ''gif''})
     \<or> preprocessImage sh imageBuffer = None"
  shows "\<exists>msg. msg \<noteq> [] \<and>
         fst (detectNSFW sh now imageBuffer fileName' userId' fileSize' s) =
           Inr \<lparr>NSFWDetectionResult.isNSFW = True, confidence = 1, category = Nsfw,
                error = Some msg\<rparr>"
proof (cases rule: input_cases [where fileSize' = fileSize' and sh = sh and imageBuffer = imageBuffer])
  case (oversize n)
  show ?thesis
    unfolding oversize(1) detectNSFW_oversize [OF oversize(2)] by simp
next
  case (throws e)
  show ?thesis
    unfolding detectNSFW_metadata_throws [OF throws] by (simp add: String_nonempty)
next
  case (bad_format md)
  show ?thesis
    unfolding detectNSFW_bad_format [OF bad_format] by simp
next
  case (no_tensor md)
  show ?thesis
    unfolding detectNSFW_preprocess_fails [OF no_tensor] by simp
next
  case (accepted md tensorData)
  with assms have False by auto
  then show ?thesis ..
qed

lemma preprocessImage_large:
  assumes "metadata sh imageBuffer = Inr md"
    and "(\<exists>w. width md = Some w \<and> w > 4096) \<or> (\<exists>h. height md = Some h \<and> h > 4096)"
  shows "preprocessImage sh imageBuffer = None"
  using assms
  by (auto simp: preprocessImage_def preprocessImage_body_def MAX_IMAGE_DIMENSION_def)

text \<open>
  \<open>preprocessImage\<close> returns a tensor exactly when every step succeeds: the metadata
  is read, both dimensions are present, positive and at most 4096, the resize succeeds and
  the raw pixels of the resized image are read.
\<close>

lemma preprocessImage_Some_iff:
  "preprocessImage sh imageBuffer = Some tensorData \<longleftrightarrow>
     (\<exists>md w h resized pixels.
        metadata sh imageBuffer = Inr md
        \<and> width md = Some w \<and> 0 < w \<and> w \<le> 4096
        \<and> height md = Some h \<and> 0 < h \<and> h \<le> 4096
        \<and> resize_png sh imageBuffer = Inr resized
        \<and> raw sh resized = Inr pixels
        \<and> tensorData = normalize pixels)"
proof (cases "metadata sh imageBuffer")
  case (Inl e)
  then show ?thesis
    by (simp add: preprocessImage_def preprocessImage_body_def)
next
  case (Inr md)
  show ?thesis
  proof (cases "width md")
    case None
    with Inr show ?thesis
      by (simp add: preprocessImage_def preprocessImage_body_def)
  next
    case w: (Some w)
    show ?thesis
    proof (cases "height md")
      case None
      with Inr show ?thesis
        by (simp add: preprocessImage_def preprocessImage_body_def)
    next
      case h: (Some h)
      show ?thesis
        using Inr w h
        by (auto simp: preprocessImage_def preprocessImage_body_def MAX_IMAGE_DIMENSION_def
            split: sum.splits)
    qed
  qed
qed

text \<open>
  Every failure inside \<open>preprocessImage\<close> gives \<open>null\<close>: a throw of the metadata read,
  a missing or zero dimension, a dimension above 4096, a throw of the resize, and a throw
  of the raw pixel read.
\<close>

lemma preprocessImage_failure:
  assumes "(\<exists>e. metadata sh imageBuffer = Inl e)
     \<or> (\<exists>md. metadata sh imageBuffer = Inr md
           \<and> (width md = None \<or> width md = Some 0 \<or> height md = None \<or> height md = Some 0
               \<or> (\<exists>w. width md = Some w \<and> w > 4096)
               \<or> (\<exists>h. height md = Some h \<and> h > 4096)))
     \<or> (\<exists>e. resize_png sh imageBuffer = Inl e)
     \<or> (\<exists>resized e. resize_png sh imageBuffer = Inr resized \<and> raw sh resized = Inl e)"
  shows "preprocessImage sh imageBuffer = None"
proof (cases "preprocessImage sh imageBuffer")
  case None
  then show ?thesis .
next
  case (Some tensorData)
  then obtain md w h resized pixels where
    "metadata sh imageBuffer = Inr md"
    "width md = Some w" "0 < w" "w \<le> 4096"
    "height md = Some h" "0 < h" "h \<le> 4096"
    "resize_png sh imageBuffer = Inr resized"
    "raw sh resized = Inr pixels"
    unfolding preprocessImage_Some_iff by blast
  with assms have False by auto
  then show ?thesis ..
qed

text \<open>
  Claim C1. If any stage fails, \<open>detectNSFW\<close> returns \<open>isNSFW = true\<close>,
  \<open>confidence = 1\<close>, \<open>category = nsfw\<close> and a non-empty error string. The failures are:
  the declared size exceeds the cap; \<open>sharp\<close> throws on the metadata; the format is not
  one of the four allowed; a dimension is missing, zero or above 4096; the resize throws;
  the read of the raw pixels throws; or, in one word, \<open>preprocessImage\<close> returns \<open>null\<close>.
  Conversely every result with the error field set has \<open>isNSFW = true\<close>.
\<close>

theorem detectNSFW_fail_closed:
  "((\<exists>n. fileSize' = Some n \<and> greater n (50 * 1024 * 1024))
      \<or> (\<exists>e. metadata sh imageBuffer = Inl e)
      \<or> (\<exists>md. metadata sh imageBuffer = Inr md
            \<and> (format md \<notin> {Some ''jpeg'', Some ''png'', Some ''webp'', Some ''gif''}
                \<or> width md = None \<or> width md = Some 0
                \<or> height md = None \<or> height md = Some 0
                \<or> (\<exists>w. width md = Some w \<and> w > 4096)
                \<or> (\<exists>h. height md = Some h \<and> h > 4096)))
      \<or> (\<exists>e. resize_png sh imageBuffer = Inl e)
      \<or> (\<exists>resized e. resize_png sh imageBuffer = Inr resized \<and> raw sh resized = Inl e)
      \<or> preprocessImage sh imageBuffer = None
     \<longrightarrow> (\<exists>msg. msg \<noteq> [] \<and>
            fst (detectNSFW sh now imageBuffer fileName' userId' fileSize' s) =
              Inr \<lparr>NSFWDetectionResult.isNSFW = True, confidence = 1, category = Nsfw,
                   error = Some msg\<rparr>))
   \<and> (\<forall>r. fst (detectNSFW sh now imageBuffer fileName' userId' fileSize' s) = Inr r
            \<and> NSFWDetectionResult.error r \<noteq> None
          \<longrightarrow> NSFWDetectionResult.isNSFW r \<and> NSFWDetectionResult.confidence r = 1
              \<and> category r = Nsfw \<and> NSFWDetectionResult.error r \<noteq> Some [])"
proof (intro conjI impI allI)
  assume failure: "(\<exists>n. fileSize' = Some n \<and> greater n (50 * 1024 * 1024))
      \<or> (\<exists>e. metadata sh imageBuffer = Inl e)
      \<or> (\<exists>md. metadata sh imageBuffer = Inr md
            \<and> (format md \<notin> {Some ''jpeg'', Some ''png'', Some ''webp'', Some ''gif''}
                \<or> width md = None \<or> width md = Some 0
                \<or> height md = None \<or> height md = Some 0
                \<or> (\<exists>w. width md = Some w \<and> w > 4096)
                \<or> (\<exists>h. height md = Some h \<and> h > 4096)))
      \<or> (\<exists>e. resize_png sh imageBuffer = Inl e)
      \<or> (\<exists>resized e. resize_png sh imageBuffer = Inr resized \<and> raw sh resized = Inl e)
      \<or> preprocessImage sh imageBuffer = None"
  have "(\<exists>n. fileSize' = Some n \<and> greater n 52428800)
     \<or> (\<exists>e. metadata sh imageBuffer = Inl e)
     \<or> (\<exists>md. metadata sh imageBuffer = Inr md
            \<and> format md \<notin> {Some ''jpeg'', Some ''png'', Some ''webp'', Some ''gif''})
     \<or> preprocessImage sh imageBuffer = None"
  proof (cases "preprocessImage sh imageBuffer")
    case None
    then show ?thesis by simp
  next
    case (Some tensorData)
    have ok: "\<not> ((\<exists>e. metadata sh imageBuffer = Inl e)
     \<or> (\<exists>md. metadata sh imageBuffer = Inr md
           \<and> (width md = None \<or> width md = Some 0 \<or> height md = None \<or> height md = Some 0
               \<or> (\<exists>w. width md = Some w \<and> w > 4096)
               \<or> (\<exists>h. height md = Some h \<and> h > 4096)))
     \<or> (\<exists>e. resize_png sh imageBuffer = Inl e)
     \<or> (\<exists>resized e. resize_png sh imageBuffer = Inr resized \<and> raw sh resized = Inl e))"
    proof
      assume "(\<exists>e. metadata sh imageBuffer = Inl e)
     \<or> (\<exists>md. metadata sh imageBuffer = Inr md
           \<and> (width md = None \<or> width md = Some 0 \<or> height md = None \<or> height md = Some 0
               \<or> (\<exists>w. width md = Some w \<and> w > 4096)
               \<or> (\<exists>h. height md = Some h \<and> h > 4096)))
     \<or> (\<exists>e. resize_png sh imageBuffer = Inl e)
     \<or> (\<exists>resized e. resize_png sh imageBuffer = Inr resized \<and> raw sh resized = Inl e)"
      then have "preprocessImage sh imageBuffer = None"
        by (rule preprocessImage_failure)
      with Some show False by simp
    qed
    have cap: "(50::rat) * 1024 * 1024 = 52428800"
      by simp
    from failure Some ok show ?thesis
      unfolding cap by auto
  qed
  then show "\<exists>msg. msg \<noteq> [] \<and>
            fst (detectNSFW sh now imageBuffer fileName' userId' fileSize' s) =
              Inr \<lparr>NSFWDetectionResult.isNSFW = True, confidence = 1, category = Nsfw,
                   error = Some msg\<rparr>"
    by (rule detectNSFW_failure_blocks)
next
  fix r
  assume r: "fst (detectNSFW sh now imageBuffer fileName' userId' fileSize' s) = Inr r
             \<and> NSFWDetectionResult.error r \<noteq> None"
  from detectNSFW_verdicts [of sh now imageBuffer fileName' userId' fileSize' s] r
  obtain msg where "msg \<noteq> []"
    "r = \<lparr>NSFWDetectionResult.isNSFW = True, confidence = 1, category = Nsfw,
          error = Some msg\<rparr>"
    by auto
  then show "NSFWDetectionResult.isNSFW r" "NSFWDetectionResult.confidence r = 1"
    "category r = Nsfw" "NSFWDetectionResult.error r \<noteq> Some []"
    by simp_all
qed

text \<open>
  A buffer whose metadata \<open>sharp\<close> cannot read, a TIFF image, which \<open>sharp\<close> reads but
  the service does not allow, and a PNG image whose resize throws.
\<close>

theorem detectNSFW_fail_closed_witness:
  "metadata sharp_broken [1, 2, 3] =
     Inl (Error ''Input buffer contains unsupported image format'')
   \<and> fst (detectNSFW sharp_broken 5 [1, 2, 3] ''a.bin'' (Some ''u1'') None initial_state) =
       Inr \<lparr>NSFWDetectionResult.isNSFW = True, confidence = 1, category = Nsfw,
            error = Some ''Error: Input buffer contains unsupported image format''\<rparr>
   \<and> metadata sharp_tiff [1, 2, 3] =
       Inr \<lparr>format = Some ''tiff'', width = Some 640, height = Some 480\<rparr>
   \<and> fst (detectNSFW sharp_tiff 5 [1, 2, 3] ''a.tiff'' (Some ''u1'') None initial_state) =
       Inr \<lparr>NSFWDetectionResult.isNSFW = True, confidence = 1, category = Nsfw,
            error = Some ''Invalid image format''\<rparr>
   \<and> resize_png sharp_resize_fails [1, 2, 3] = Inl (Error ''Input buffer has corrupt header'')
   \<and> fst (detectNSFW sharp_resize_fails 5 [1, 2, 3] ''a.png'' (Some ''u1'') None
          initial_state) =
       Inr \<lparr>NSFWDetectionResult.isNSFW = True, confidence = 1, category = Nsfw,
            error = Some ''Error: Image preprocessing failed''\<rparr>"
proof -
  let ?tiff = "\<lparr>format = Some ''tiff'', width = Some 640, height = Some 480\<rparr>"
  let ?png = "\<lparr>format = Some ''png'', width = Some 640, height = Some 480\<rparr>"
  let ?r_broken =
    "fst (detectNSFW sharp_broken 5 [1, 2, 3] ''a.bin'' (Some ''u1'') None initial_state)"
  let ?r_tiff =
    "fst (detectNSFW sharp_tiff 5 [1, 2, 3] ''a.tiff'' (Some ''u1'') None initial_state)"
  let ?r_resize =
    "fst (detectNSFW sharp_resize_fails 5 [1, 2, 3] ''a.png'' (Some ''u1'') None initial_state)"
  have h: "metadata sharp_broken [1, 2, 3] =
             Inl (Error ''Input buffer contains unsupported image format'')"
    by (simp add: sharp_broken_def)
  have k: "metadata sharp_tiff [1, 2, 3] = Inr ?tiff"
    by (simp add: sharp_tiff_def)
  have k': "format ?tiff \<notin> {Some ''jpeg'', Some ''png'', Some ''webp'', Some ''gif''}"
    by simp
  have m: "resize_png sharp_resize_fails [1, 2, 3] =
             Inl (Error ''Input buffer has corrupt header'')"
    by (simp add: sharp_resize_fails_def)
  have m1: "metadata sharp_resize_fails [1, 2, 3] = Inr ?png"
    by (simp add: sharp_resize_fails_def)
  have m2: "format ?png \<in> {Some ''jpeg'', Some ''png'', Some ''webp'', Some ''gif''}"
    by simp
  from h detectNSFW_fail_closed
         [of None sharp_broken "[1, 2, 3]" 5 "''a.bin''" "Some ''u1''" initial_state]
  obtain msg where "msg \<noteq> []" "?r_broken =
      Inr \<lparr>NSFWDetectionResult.isNSFW = True, confidence = 1, category = Nsfw,
           error = Some msg\<rparr>"
    by auto
  moreover have "?r_broken =
      Inr \<lparr>NSFWDetectionResult.isNSFW = True, confidence = 1, category = Nsfw,
           error = Some (String (Error ''Input buffer contains unsupported image format''))\<rparr>"
    using detectNSFW_metadata_throws [OF _ h, of None] by simp
  moreover have "?r_tiff =
      Inr \<lparr>NSFWDetectionResult.isNSFW = True, confidence = 1, category = Nsfw,
           error = Some ''Invalid image format''\<rparr>"
    using detectNSFW_bad_format [OF _ k k', of None] by simp
  moreover from m detectNSFW_fail_closed
         [of None sharp_resize_fails "[1, 2, 3]" 5 "''a.png''" "Some ''u1''" initial_state]
  obtain msg' where "msg' \<noteq> []" "?r_resize =
      Inr \<lparr>NSFWDetectionResult.isNSFW = True, confidence = 1, category = Nsfw,
           error = Some msg'\<rparr>"
    by auto
  moreover have "preprocessImage sharp_resize_fails [1, 2, 3] = None"
    using m by (intro preprocessImage_failure) blast
  then have "?r_resize =
      Inr \<lparr>NSFWDetectionResult.isNSFW = True, confidence = 1, category = Nsfw,
           error = Some ''Error: Image preprocessing failed''\<rparr>"
    using detectNSFW_preprocess_fails [OF _ m1 m2, of None] by simp
  ultimately show ?thesis
    using h k m by simp
qed

text \<open>
  Claim C2. For a confidence between 0 and 1 the category is \<open>nsfw\<close> above 0.7,
  \<open>uncertain\<close> above 0.4 and up to 0.7, and \<open>safe\<close> up to 0.4; \<open>isNSFW\<close> holds exactly
  above 0.7, so not for \<open>uncertain\<close> and \<open>safe\<close>. At 0.7 the category is \<open>uncertain\<close>,
  at 0.4 it is \<open>safe\<close>.
\<close>

theorem verdict_thresholds:
  assumes "0 \<le> c" and "c \<le> 1"
  shows "(c > 7 / 10 \<longrightarrow> category (verdict c) = Nsfw)
    \<and> (4 / 10 < c \<and> c \<le> 7 / 10 \<longrightarrow> category (verdict c) = Uncertain)
    \<and> (c \<le> 4 / 10 \<longrightarrow> category (verdict c) = Safe)
    \<and> NSFWDetectionResult.isNSFW (verdict c) = (c > 7 / 10)
    \<and> (category (verdict c) = Uncertain \<or> category (verdict c) = Safe
         \<longrightarrow> \<not> NSFWDetectionResult.isNSFW (verdict c))
    \<and> category (verdict (7 / 10)) = Uncertain
    \<and> category (verdict (4 / 10)) = Safe"
  by (simp add: verdict_def NSFW_CONFIDENCE_THRESHOLD_def)

text \<open>The spec's sample confidences and the two boundaries.\<close>

theorem verdict_thresholds_witness:
  "(0::rat) \<le> 7 / 10 \<and> (7 / 10 :: rat) \<le> 1
   \<and> category (verdict (7 / 10)) = Uncertain
   \<and> \<not> NSFWDetectionResult.isNSFW (verdict (7 / 10))
   \<and> category (verdict (85 / 100)) = Nsfw
   \<and> NSFWDetectionResult.isNSFW (verdict (85 / 100))
   \<and> category (verdict (55 / 100)) = Uncertain
   \<and> category (verdict (15 / 100)) = Safe"
  using verdict_thresholds [of "7 / 10"] verdict_thresholds [of "85 / 100"]
    verdict_thresholds [of "55 / 100"] verdict_thresholds [of "15 / 100"]
  by simp

text \<open>
  Claim C3. For every input, every behaviour of \<open>sharp\<close> and every state, \<open>detectNSFW\<close>
  resolves with a result (it does not reject), and the state it leaves is the state
  before after exactly one \<open>logAudit\<close>, of a record that carries the verdict returned: one
  entry is pushed at the end of the log, and below the bound the log grows by one.
\<close>

theorem detectNSFW_one_result_one_record:
  "\<exists>r l. detectNSFW sh now imageBuffer fileName' userId' fileSize' s = (Inr r, logAudit now l s)
     \<and> userId l = userId' \<and> fileName l = fileName'
     \<and> AuditFields.isNSFW l = NSFWDetectionResult.isNSFW r
     \<and> AuditFields.confidence l = NSFWDetectionResult.confidence r
     \<and> AuditFields.error l = NSFWDetectionResult.error r
     \<and> auditLogs (logAudit now l s) =
         drop (Suc (length (auditLogs s)) - 10000) (auditLogs s @ [entry_of (now, l)])
     \<and> (length (auditLogs s) < 10000 \<longrightarrow>
          length (auditLogs (logAudit now l s)) = Suc (length (auditLogs s)))"
proof -
  obtain r l where
    "detectNSFW sh now imageBuffer fileName' userId' fileSize' s = (Inr r, logAudit now l s)"
    "userId l = userId'" "fileName l = fileName'"
    "AuditFields.isNSFW l = NSFWDetectionResult.isNSFW r"
    "AuditFields.confidence l = NSFWDetectionResult.confidence r"
    "AuditFields.error l = NSFWDetectionResult.error r"
    using detectNSFW_shape [of sh now imageBuffer fileName' userId' fileSize' s] by blast
  moreover have "auditLogs (logAudit now l s) =
      drop (Suc (length (auditLogs s)) - 10000) (auditLogs s @ [entry_of (now, l)])"
    by (rule auditLogs_logAudit)
  moreover have "length (auditLogs s) < 10000 \<longrightarrow>
      length (auditLogs (logAudit now l s)) = Suc (length (auditLogs s))"
    by (simp add: auditLogs_logAudit)
  ultimately show ?thesis by blast
qed

text \<open>A failing call on the empty log leaves exactly one record.\<close>

theorem detectNSFW_one_result_one_record_witness:
  "length (auditLogs initial_state) < 10000
   \<and> (\<exists>r. fst (detectNSFW sharp_broken 5 [1, 2, 3] ''a.bin'' None None initial_state) = Inr r)
   \<and> length (auditLogs
         (snd (detectNSFW sharp_broken 5 [1, 2, 3] ''a.bin'' None None initial_state))) = 1"
proof -
  have h: "length (auditLogs initial_state) < 10000"
    by (simp add: initial_state_def)
  obtain r l where
    run: "detectNSFW sharp_broken 5 [1, 2, 3] ''a.bin'' None None initial_state =
            (Inr r, logAudit 5 l initial_state)"
    and grow: "length (auditLogs initial_state) < 10000 \<longrightarrow>
            length (auditLogs (logAudit 5 l initial_state)) = Suc (length (auditLogs initial_state))"
    using detectNSFW_one_result_one_record
            [of sharp_broken 5 "[1, 2, 3]" "''a.bin''" None None initial_state]
    by blast
  from grow h have "length (auditLogs (logAudit 5 l initial_state)) = 1"
    by (simp add: initial_state_def)
  with h run show ?thesis by simp
qed

text \<open>
  Claim C5. A declared size above 50 * 1024 * 1024 is rejected with \<open>isNSFW = true\<close>,
  \<open>confidence = 1\<close>, \<open>category = nsfw\<close> and the error \<open>File size exceeds limit\<close>. The
  outcome is the same for any other buffer and whatever \<open>sharp\<close> would do, so the buffer
  is not read, and the rejection is the entry pushed to the audit log.
\<close>

theorem detectNSFW_oversize_rejected:
  assumes "greater n (50 * 1024 * 1024)"
  shows "detectNSFW sh now imageBuffer fileName' userId' (Some n) s =
       (Inr \<lparr>NSFWDetectionResult.isNSFW = True, confidence = 1, category = Nsfw,
             error = Some ''File size exceeds limit''\<rparr>,
        logAudit now
          \<lparr>userId = userId', fileName = fileName', isNSFW = True, confidence = 1,
           fileSize = n, dimensions = None, error = Some ''File size exceeds limit''\<rparr> s)
     \<and> detectNSFW sh now imageBuffer fileName' userId' (Some n) s =
         detectNSFW sh' now imageBuffer' fileName' userId' (Some n) s
     \<and> auditLogs (snd (detectNSFW sh now imageBuffer fileName' userId' (Some n) s)) =
         drop (Suc (length (auditLogs s)) - 10000)
           (auditLogs s @
            [\<lparr>userId = userId', fileName = fileName', isNSFW = True, confidence = 1,
              fileSize = n, dimensions = None, error = Some ''File size exceeds limit'',
              timestamp = now\<rparr>])"
proof -
  from assms have big: "greater n 52428800" by simp
  show ?thesis
    unfolding detectNSFW_oversize [OF big]
    by (simp add: auditLogs_logAudit entry_of_def)
qed

text \<open>One byte above the cap, with a \<open>sharp\<close> that would throw on any buffer.\<close>

theorem detectNSFW_oversize_rejected_witness:
  "greater (Num 52428801) (50 * 1024 * 1024)
   \<and> fst (detectNSFW sharp_broken 5 [1, 2, 3] ''a.png'' None (Some (Num 52428801))
          initial_state) =
       Inr \<lparr>NSFWDetectionResult.isNSFW = True, confidence = 1, category = Nsfw,
            error = Some ''File size exceeds limit''\<rparr>
   \<and> length (auditLogs (snd (detectNSFW sharp_broken 5 [1, 2, 3] ''a.png'' None
          (Some (Num 52428801)) initial_state))) = 1"
proof -
  have h: "greater (Num 52428801) (50 * 1024 * 1024)" by simp
  note run = detectNSFW_oversize_rejected
      [OF h, of sharp_broken 5 "[1, 2, 3]" "''a.png''" None initial_state sharp_png "[]"]
  have res: "fst (detectNSFW sharp_broken 5 [1, 2, 3] ''a.png'' None (Some (Num 52428801))
          initial_state) =
       Inr \<lparr>NSFWDetectionResult.isNSFW = True, confidence = 1, category = Nsfw,
            error = Some ''File size exceeds limit''\<rparr>"
    using run [THEN conjunct1] by simp
  have "length (auditLogs (snd (detectNSFW sharp_broken 5 [1, 2, 3] ''a.png'' None
          (Some (Num 52428801)) initial_state))) = 1"
    using run [THEN conjunct2, THEN conjunct2] by (simp add: initial_state_def)
  with h res show ?thesis by blast
qed

text \<open>
  Claim C6. When the decoded width or height exceeds 4096, \<open>preprocessImage\<close> returns
  \<open>null\<close>, and \<open>detectNSFW\<close> returns \<open>isNSFW = true\<close>, \<open>confidence = 1\<close>,
  \<open>category = nsfw\<close> with a non-empty error; for an input that is otherwise accepted
  (declared size within the cap, allowed format) the error is that of the failed
  preprocessing.
\<close>

theorem detectNSFW_rejects_large_dimensions:
  assumes "metadata sh imageBuffer = Inr md"
    and "(\<exists>w. width md = Some w \<and> w > 4096) \<or> (\<exists>h. height md = Some h \<and> h > 4096)"
  shows "preprocessImage sh imageBuffer = None
     \<and> (\<exists>msg. msg \<noteq> [] \<and>
           fst (detectNSFW sh now imageBuffer fileName' userId' fileSize' s) =
             Inr \<lparr>NSFWDetectionResult.isNSFW = True, confidence = 1, category = Nsfw,
                  error = Some msg\<rparr>)
     \<and> ((\<forall>n. fileSize' = Some n \<longrightarrow> \<not> greater n (50 * 1024 * 1024))
          \<and> format md \<in> {Some ''jpeg'', Some ''png'', Some ''webp'', Some ''gif''}
        \<longrightarrow> fst (detectNSFW sh now imageBuffer fileName' userId' fileSize' s) =
              Inr \<lparr>NSFWDetectionResult.isNSFW = True, confidence = 1, category = Nsfw,
                   error = Some ''Error: Image preprocessing failed''\<rparr>)"
proof (intro conjI impI)
  show none: "preprocessImage sh imageBuffer = None"
    using assms by (rule preprocessImage_large)
  then show "\<exists>msg. msg \<noteq> [] \<and>
           fst (detectNSFW sh now imageBuffer fileName' userId' fileSize' s) =
             Inr \<lparr>NSFWDetectionResult.isNSFW = True, confidence = 1, category = Nsfw,
                  error = Some msg\<rparr>"
    using detectNSFW_failure_blocks [of fileSize' sh imageBuffer now fileName' userId' s]
    by simp
  assume ok: "(\<forall>n. fileSize' = Some n \<longrightarrow> \<not> greater n (50 * 1024 * 1024))
          \<and> format md \<in> {Some ''jpeg'', Some ''png'', Some ''webp'', Some ''gif''}"
  then have small: "\<forall>n. fileSize' = Some n \<longrightarrow> \<not> greater n 52428800"
    by simp
  show "fst (detectNSFW sh now imageBuffer fileName' userId' fileSize' s) =
              Inr \<lparr>NSFWDetectionResult.isNSFW = True, confidence = 1, category = Nsfw,
                   error = Some ''Error: Image preprocessing failed''\<rparr>"
    using detectNSFW_preprocess_fails [OF small assms(1) _ none] ok by simp
qed

text \<open>A JPEG of 5000 by 300 pixels with a declared size of 2048 bytes.\<close>

theorem detectNSFW_rejects_large_dimensions_witness:
  "metadata sharp_huge [1, 2, 3] =
     Inr \<lparr>format = Some ''jpeg'', width = Some 5000, height = Some 300\<rparr>
   \<and> (5000::nat) > 4096
   \<and> preprocessImage sharp_huge [1, 2, 3] = None
   \<and> fst (detectNSFW sharp_huge 5 [1, 2, 3] ''a.jpg'' None (Some (Num 2048)) initial_state) =
       Inr \<lparr>NSFWDetectionResult.isNSFW = True, confidence = 1, category = Nsfw,
            error = Some ''Error: Image preprocessing failed''\<rparr>"
proof -
  let ?md = "\<lparr>format = Some ''jpeg'', width = Some 5000, height = Some 300\<rparr>"
  have h1: "metadata sharp_huge [1, 2, 3] = Inr ?md"
    by (simp add: sharp_huge_def)
  have h2: "(\<exists>w. width ?md = Some w \<and> w > 4096) \<or> (\<exists>h. height ?md = Some h \<and> h > 4096)"
    by simp
  show ?thesis
    using h1 detectNSFW_rejects_large_dimensions
                [OF h1 h2, of 5 "''a.jpg''" None "Some (Num 2048)" initial_state]
    by simp
qed

text \<open>
  Claim C10. When the declared size is within the cap, the format is one of \<open>jpeg\<close>,
  \<open>png\<close>, \<open>webp\<close>, \<open>gif\<close> and \<open>preprocessImage\<close> returns a tensor, \<open>detectNSFW\<close> returns
  the constant verdict \<open>confidence = 0.15\<close>, \<open>category = safe\<close>, \<open>isNSFW = false\<close> without
  an error. The call leaves \<open>modelSession\<close> and \<open>modelLoadPromise\<close> as they were, and its
  result is the same from any other state: the model is neither loaded nor consulted.
\<close>

theorem detectNSFW_accepted_mock_verdict:
  assumes "\<forall>n. fileSize' = Some n \<longrightarrow> \<not> greater n (50 * 1024 * 1024)"
    and "metadata sh imageBuffer = Inr md"
    and "format md \<in> {Some ''jpeg'', Some ''png'', Some ''webp'', Some ''gif''}"
    and "preprocessImage sh imageBuffer = Some tensorData"
  shows "fst (detectNSFW sh now imageBuffer fileName' userId' fileSize' s) =
       Inr \<lparr>NSFWDetectionResult.isNSFW = False, confidence = 15 / 100, category = Safe,
            error = None\<rparr>
     \<and> modelSession (snd (detectNSFW sh now imageBuffer fileName' userId' fileSize' s)) =
         modelSession s
     \<and> modelLoadPromise (snd (detectNSFW sh now imageBuffer fileName' userId' fileSize' s)) =
         modelLoadPromise s
     \<and> fst (detectNSFW sh now imageBuffer fileName' userId' fileSize' s') =
         fst (detectNSFW sh now imageBuffer fileName' userId' fileSize' s)"
proof -
  from assms(1) have small: "\<forall>n. fileSize' = Some n \<longrightarrow> \<not> greater n 52428800"
    by simp
  show ?thesis
    unfolding detectNSFW_accepted [OF small assms(2,3,4)]
    by (simp add: logAudit_other_fields)
qed

text \<open>A PNG of 640 by 480 pixels with a declared size of 2048 bytes.\<close>

theorem detectNSFW_accepted_mock_verdict_witness:
  "\<not> greater (Num 2048) (50 * 1024 * 1024)
   \<and> metadata sharp_png [1, 2, 3] =
       Inr \<lparr>format = Some ''png'', width = Some 640, height = Some 480\<rparr>
   \<and> preprocessImage sharp_png [1, 2, 3] = Some (normalize [1, 2, 3])
   \<and> fst (detectNSFW sharp_png 5 [1, 2, 3] ''a.png'' None (Some (Num 2048)) initial_state) =
       Inr \<lparr>NSFWDetectionResult.isNSFW = False, confidence = 15 / 100, category = Safe,
            error = None\<rparr>"
proof -
  let ?md = "\<lparr>format = Some ''png'', width = Some 640, height = Some 480\<rparr>"
  have h1: "\<forall>n. Some (Num 2048) = Some n \<longrightarrow> \<not> greater n (50 * 1024 * 1024)"
    by simp
  have h2: "metadata sharp_png [1, 2, 3] = Inr ?md"
    by (simp add: sharp_png_def)
  have h3: "format ?md \<in> {Some ''jpeg'', Some ''png'', Some ''webp'', Some ''gif''}"
    by simp
  have h4: "preprocessImage sharp_png [1, 2, 3] = Some (normalize [1, 2, 3])"
    by (simp add: preprocessImage_def preprocessImage_body_def sharp_png_def
        MAX_IMAGE_DIMENSION_def)
  show ?thesis
    using h2 h4 detectNSFW_accepted_mock_verdict
                  [OF h1 h2 h3 h4, of 5 "''a.png''" None initial_state initial_state]
    by simp
qed

section \<open>Properties of model initialisation\<close>

lemma downloadModel_failing:
  "downloadModel fs_failing = Inl (Error ''EACCES: permission denied, mkdir'')"
  by (simp add: downloadModel_def fs_failing_def)

lemma downloadModel_healthy: "\<exists>p. downloadModel fs_healthy = Inr p"
  by (simp add: downloadModel_def fs_healthy_def Let_def)

text \<open>
  Claim C4, as stated, fails. From the initial state a call with a file system where
  \<open>mkdirSync\<close> throws reports the error. A call after it, with a file system where
  initialisation from the initial state succeeds, does not retry: it reports the old
  error again, and \<open>modelLoadPromise\<close> still holds the rejected promise.
\<close>

theorem initializeModel_no_retry:
  "fst (initializeModel fs_failing initial_state) =
     Inl (Error ''EACCES: permission denied, mkdir'')
   \<and> fst (initializeModel fs_healthy initial_state) = Inr None
   \<and> fst (initializeModel fs_healthy (snd (initializeModel fs_failing initial_state))) =
       Inl (Error ''EACCES: permission denied, mkdir'')
   \<and> fst (initializeModel fs_healthy (snd (initializeModel fs_failing initial_state))) \<noteq>
       fst (initializeModel fs_healthy initial_state)
   \<and> modelLoadPromise (snd (initializeModel fs_failing initial_state)) =
       Some (Inl (Error ''EACCES: permission denied, mkdir''))"
proof -
  obtain p where "downloadModel fs_healthy = Inr p"
    using downloadModel_healthy by blast
  then show ?thesis
    by (simp add: initializeModel_def initial_state_def downloadModel_failing Let_def)
qed

text \<open>
  Claim C4, amended. When \<open>downloadModel\<close> fails in a call from the uninitialised state,
  the call reports that error. After any failed call, every later call reports the same
  error again, whatever the file system is then, and leaves the state as it is: the
  rejected promise stays in \<open>modelLoadPromise\<close>.
\<close>

theorem initializeModel_failure_is_kept:
  "(modelSession s = None \<and> modelLoadPromise s = None \<and> downloadModel fsys = Inl e
      \<longrightarrow> fst (initializeModel fsys s) = Inl e)
   \<and> (fst (initializeModel fsys s) = Inl e
      \<longrightarrow> modelLoadPromise (snd (initializeModel fsys s)) = Some (Inl e)
          \<and> initializeModel fsys' (snd (initializeModel fsys s)) =
              (Inl e, snd (initializeModel fsys s)))"
  by (auto simp: initializeModel_def Let_def split: option.splits sum.splits)

text \<open>The failing file system first, the healthy one after it.\<close>

theorem initializeModel_failure_is_kept_witness:
  "modelSession initial_state = None \<and> modelLoadPromise initial_state = None
   \<and> downloadModel fs_failing = Inl (Error ''EACCES: permission denied, mkdir'')
   \<and> fst (initializeModel fs_failing initial_state) =
       Inl (Error ''EACCES: permission denied, mkdir'')
   \<and> initializeModel fs_healthy (snd (initializeModel fs_failing initial_state)) =
       (Inl (Error ''EACCES: permission denied, mkdir''),
        snd (initializeModel fs_failing initial_state))"
proof -
  have h: "modelSession initial_state = None \<and> modelLoadPromise initial_state = None
           \<and> downloadModel fs_failing = Inl (Error ''EACCES: permission denied, mkdir'')"
    by (simp add: initial_state_def downloadModel_failing)
  from h initializeModel_failure_is_kept
           [of initial_state fs_failing "Error ''EACCES: permission denied, mkdir''" fs_healthy]
  show ?thesis by blast
qed

end
